theory Spec2Isabelle
  imports Complex_Main
begin

section \<open>Data model\<close>

text \<open>
  A keypoint of the detector is an object with numeric fields \<open>x\<close> and \<open>y\<close> (pixel
  coordinates); a 3D keypoint has a further field \<open>z\<close>. The record is polymorphic in the
  type of its numbers. JavaScript numbers are modelled as real numbers: rounding, overflow
  and signed zeros of IEEE doubles are not part of the model. Every division of the hand
  demo is guarded by a test of its divisor against zero, so real division is what it
  computes; the divisions of the gaze demo are unguarded and use the type \<open>jsnum\<close> below.
\<close>

record 'n point =
  x :: 'n
  y :: 'n

record 'n point3 = "'n point" +
  z :: 'n

text \<open>
  A detected hand: the handedness tag, the 2D landmark array and the 3D landmark array.
  An absent array (\<open>null\<close> or \<open>undefined\<close>) is \<open>None\<close>.
\<close>

record hand =
  handedness :: string
  keypoints :: "real point list option"
  keypoints3D :: "real point3 list option"

text \<open>A detected face; its landmark array is the field \<open>keypoints\<close> of the source.\<close>

record face =
  keypointsF :: "real point list"

section \<open>Faults and absent values\<close>

text \<open>
  Reading an array out of range gives \<open>undefined\<close> (\<open>None\<close>) and is no fault; reading a
  property of \<open>undefined\<close> throws a \<open>TypeError\<close>. A function that can throw returns
  \<open>error + 'a\<close>.
\<close>

datatype error = TypeError

definition idx :: "'a list \<Rightarrow> nat \<Rightarrow> 'a option" where
  "idx xs i = (if i < length xs then Some (xs ! i) else None)"

definition deref :: "'a option \<Rightarrow> error + 'a" where
  "deref v = (case v of None \<Rightarrow> Inl TypeError | Some a \<Rightarrow> Inr a)"

definition ebind :: "error + 'a \<Rightarrow> ('a \<Rightarrow> error + 'b) \<Rightarrow> error + 'b" where
  "ebind m f = (case m of Inl e \<Rightarrow> Inl e | Inr a \<Rightarrow> f a)"

text \<open>
  The geometry predicates read the coordinates of all their arguments before anything
  else, so a call with a possibly undefined argument throws exactly when one of the
  arguments is undefined. \<open>lift2\<close>, \<open>lift3\<close> and \<open>lift4\<close> are such calls.
\<close>

definition lift2 :: "('a \<Rightarrow> 'b \<Rightarrow> 'r) \<Rightarrow> 'a option \<Rightarrow> 'b option \<Rightarrow> error + 'r" where
  "lift2 f a b = ebind (deref a) (\<lambda>a'. ebind (deref b) (\<lambda>b'. Inr (f a' b')))"

definition lift3 ::
  "('a \<Rightarrow> 'b \<Rightarrow> 'c \<Rightarrow> 'r) \<Rightarrow> 'a option \<Rightarrow> 'b option \<Rightarrow> 'c option \<Rightarrow> error + 'r" where
  "lift3 f a b c = ebind (deref a) (\<lambda>a'. lift2 (f a') b c)"

definition lift4 ::
  "('a \<Rightarrow> 'b \<Rightarrow> 'c \<Rightarrow> 'd \<Rightarrow> 'r) \<Rightarrow> 'a option \<Rightarrow> 'b option \<Rightarrow> 'c option \<Rightarrow> 'd option
     \<Rightarrow> error + 'r" where
  "lift4 f a b c d = ebind (deref a) (\<lambda>a'. lift3 (f a') b c d)"

text \<open>\<open>a && b\<close> on booleans: \<open>b\<close> is evaluated only when \<open>a\<close> is true.\<close>

definition andalso :: "error + bool \<Rightarrow> error + bool \<Rightarrow> error + bool" where
  "andalso a b = ebind a (\<lambda>r. if r then b else Inr False)"

text \<open>The truth value of a label: \<open>null\<close> and the empty string are falsy.\<close>

definition truthy :: "string option \<Rightarrow> bool" where
  "truthy g = (case g of None \<Rightarrow> False | Some s \<Rightarrow> s \<noteq> [])"

section \<open>Geometry predicates of the hand demo\<close>

text \<open>
  \<open>arePointsColinear(p1, p2, p3, tolerance = 8e-2)\<close>: the arrays \<open>v1\<close>, \<open>v2\<close> and
  \<open>cross\<close> are lists read at literal indices.
\<close>

definition arePointsColinear ::
  "real point3 \<Rightarrow> real point3 \<Rightarrow> real point3 \<Rightarrow> real \<Rightarrow> bool" where
  "arePointsColinear p1 p2 p3 tolerance =
     (let v1 = [x p2 - x p1, y p2 - y p1, z p2 - z p1];
          v2 = [x p3 - x p1, y p3 - y p1, z p3 - z p1];
          cross = [v1 ! 1 * v2 ! 2 - v1 ! 2 * v2 ! 1,
                   v1 ! 2 * v2 ! 0 - v1 ! 0 * v2 ! 2,
                   v1 ! 0 * v2 ! 1 - v1 ! 1 * v2 ! 0];
          crossNorm = sqrt ((cross ! 0)\<^sup>2 + (cross ! 1)\<^sup>2 + (cross ! 2)\<^sup>2);
          v1Norm = sqrt ((v1 ! 0)\<^sup>2 + (v1 ! 1)\<^sup>2 + (v1 ! 2)\<^sup>2);
          v2Norm = sqrt ((v2 ! 0)\<^sup>2 + (v2 ! 1)\<^sup>2 + (v2 ! 2)\<^sup>2)
      in if v1Norm * v2Norm = 0 then False
         else let colinearMeasure = crossNorm / (v1Norm * v2Norm)
              in colinearMeasure < tolerance)"

text \<open>\<open>areLinesParallel2D(p1, p2, q1, q2, toleranceDeg = 20)\<close>.\<close>

definition areLinesParallel2D ::
  "real point \<Rightarrow> real point \<Rightarrow> real point \<Rightarrow> real point \<Rightarrow> real \<Rightarrow> bool" where
  "areLinesParallel2D p1 p2 q1 q2 toleranceDeg =
     (let v1 = [x p2 - x p1, y p2 - y p1];
          v2 = [x q2 - x q1, y q2 - y q1];
          dot = v1 ! 0 * v2 ! 0 + v1 ! 1 * v2 ! 1;
          norm1 = sqrt ((v1 ! 0)\<^sup>2 + (v1 ! 1)\<^sup>2);
          norm2 = sqrt ((v2 ! 0)\<^sup>2 + (v2 ! 1)\<^sup>2)
      in if norm1 * norm2 = 0 then False
         else let cosTheta = dot / (norm1 * norm2);
                  angleDeg = arccos (min 1 (max (- 1) cosTheta)) * 180 / pi
              in angleDeg < toleranceDeg \<or> \<bar>180 - angleDeg\<bar> < toleranceDeg)"

text \<open>\<open>arePointsColinear2D(p1, p2, p3, tolerance = 0.1)\<close>.\<close>

definition arePointsColinear2D ::
  "real point \<Rightarrow> real point \<Rightarrow> real point \<Rightarrow> real \<Rightarrow> bool" where
  "arePointsColinear2D p1 p2 p3 tolerance =
     (let v1 = [x p2 - x p1, y p2 - y p1];
          v2 = [x p3 - x p1, y p3 - y p1];
          cross = v1 ! 0 * v2 ! 1 - v1 ! 1 * v2 ! 0;
          area = \<bar>cross\<bar>;
          v1Len = sqrt ((v1 ! 0)\<^sup>2 + (v1 ! 1)\<^sup>2);
          v2Len = sqrt ((v2 ! 0)\<^sup>2 + (v2 ! 1)\<^sup>2)
      in if v1Len * v2Len = 0 then False
         else let colinearMeasure = area / (v1Len * v2Len)
              in colinearMeasure < tolerance)"

text \<open>\<open>distance2D(p1, p2)\<close>.\<close>

definition distance2D :: "real point \<Rightarrow> real point \<Rightarrow> real" where
  "distance2D p1 p2 =
     (let dx = x p1 - x p2;
          dy = y p1 - y p2
      in sqrt (dx * dx + dy * dy))"

section \<open>Feature extractors and rules of the hand demo\<close>

text \<open>
  \<open>checkMiddleFinger(landmarks)\<close>: the four comparisons are joined by \<open>&&\<close>, so a
  later landmark is read only when the earlier comparisons hold.
\<close>

definition checkMiddleFinger :: "real point list \<Rightarrow> error + string option" where
  "checkMiddleFinger landmarks =
     (let indexTip = idx landmarks 8;
          indexPip = idx landmarks 6;
          middleTip = idx landmarks 12;
          middlePip = idx landmarks 10;
          ringTip = idx landmarks 16;
          ringPip = idx landmarks 14;
          pinkyTip = idx landmarks 20;
          pinkyPip = idx landmarks 18
      in ebind (andalso (lift2 (\<lambda>a b. y a < y b) middleTip middlePip)
               (andalso (lift2 (\<lambda>a b. y a > y b) indexTip indexPip)
               (andalso (lift2 (\<lambda>a b. y a > y b) ringTip ringPip)
                        (lift2 (\<lambda>a b. y a > y b) pinkyTip pinkyPip))))
           (\<lambda>c. if c then Inr (Some ''Middle Finger'') else Inr None))"

text \<open>
  \<open>isFingerStraight(hand, mcpIdx, pipIdx, dipIdx, tipIdx, tolerance = 0.15)\<close>; the
  default tolerance is what \<open>isHandOpen\<close> passes.
\<close>

definition isFingerStraight ::
  "real point list \<Rightarrow> nat \<Rightarrow> nat \<Rightarrow> nat \<Rightarrow> nat \<Rightarrow> real \<Rightarrow> error + bool" where
  "isFingerStraight hnd mcpIdx pipIdx dipIdx tipIdx tolerance =
     (let mcp = idx hnd mcpIdx;
          pip = idx hnd pipIdx;
          dip = idx hnd dipIdx;
          tip = idx hnd tipIdx
      in andalso (lift3 (\<lambda>a b c. arePointsColinear2D a b c tolerance) mcp pip tip)
                 (lift3 (\<lambda>a b c. arePointsColinear2D a b c tolerance) pip dip tip))"

text \<open>\<open>isHandOpen(hand)\<close>: the counter \<open>straightCount\<close> is threaded through the four tests.\<close>

definition isHandOpen :: "real point list option \<Rightarrow> error + bool" where
  "isHandOpen hnd =
     (case hnd of None \<Rightarrow> Inr False
      | Some h \<Rightarrow>
          ebind (isFingerStraight h 5 6 7 8 (15 / 100)) (\<lambda>s1.
          ebind (isFingerStraight h 9 10 11 12 (15 / 100)) (\<lambda>s2.
          ebind (isFingerStraight h 13 14 15 16 (15 / 100)) (\<lambda>s3.
          ebind (isFingerStraight h 17 18 19 20 (15 / 100)) (\<lambda>s4.
            let c0 = (0::nat);
                c1 = (if s1 then c0 + 1 else c0);
                c2 = (if s2 then c1 + 1 else c1);
                c3 = (if s3 then c2 + 1 else c2);
                straightCount = (if s4 then c3 + 1 else c3)
            in Inr (straightCount \<ge> 3))))))"

text \<open>
  \<open>checkOpenPalm(leftHand, rightHand)\<close>: in \<open>!isHandOpen(leftHand) || !isHandOpen(rightHand)\<close>
  the right hand is tested only when the left one is open.
\<close>

definition checkOpenPalm ::
  "real point list option \<Rightarrow> real point list option \<Rightarrow> error + string option" where
  "checkOpenPalm leftHand rightHand =
     (case (leftHand, rightHand) of
        (Some lh, Some rh) \<Rightarrow>
          ebind (isHandOpen leftHand) (\<lambda>lo.
            if \<not> lo then Inr None
            else ebind (isHandOpen rightHand) (\<lambda>ro.
              if \<not> ro then Inr None
              else let leftWrist = idx lh 0;
                       rightWrist = idx rh 0;
                       leftMiddle = idx lh 12;
                       rightMiddle = idx rh 12
                   in ebind (lift4 (\<lambda>a b c d. areLinesParallel2D a b c d 20)
                               leftWrist leftMiddle rightWrist rightMiddle)
                        (\<lambda>par. if par then Inr (Some ''Open Palm'') else Inr None)))
      | _ \<Rightarrow> Inr None)"

text \<open>
  The counting loop of \<open>checkFingerInterlocked\<close>, from index \<open>i\<close> with the count so far.
  \<open>leftJoints\<close> and \<open>rightJoints\<close> hold possibly undefined points.
\<close>

function interlockedLoop ::
  "real point option list \<Rightarrow> real point option list \<Rightarrow> real \<Rightarrow> nat \<Rightarrow> nat \<Rightarrow> error + nat" where
  "interlockedLoop leftJoints rightJoints threshold i interlockedCount =
     (if i < length leftJoints then
        (let lf = leftJoints ! i;
             rf = (case idx rightJoints i of None \<Rightarrow> None | Some v \<Rightarrow> v)
         in case lift2 distance2D lf rf of
              Inl e \<Rightarrow> Inl e
            | Inr d \<Rightarrow>
                interlockedLoop leftJoints rightJoints threshold (i + 1)
                  (if d < threshold then interlockedCount + 1 else interlockedCount))
      else Inr interlockedCount)"
  by pat_completeness auto
termination
  by (relation "measure (\<lambda>(l, r, t, i, c). length l - i)") auto

declare interlockedLoop.simps [simp del]

definition checkFingerInterlocked ::
  "real point list option \<Rightarrow> real point list option \<Rightarrow> error + string option" where
  "checkFingerInterlocked leftHand rightHand =
     (case (leftHand, rightHand) of
        (Some lh, Some rh) \<Rightarrow>
          (let jointIdx = [3, 6, 10, 14, 18];
               leftJoints = map (\<lambda>i. idx lh i) jointIdx;
               rightJoints = map (\<lambda>i. idx rh i) jointIdx;
               threshold = 40
           in ebind (interlockedLoop leftJoints rightJoints threshold 0 0)
                (\<lambda>interlockedCount.
                   if interlockedCount \<ge> 3 then Inr (Some ''Finger Interlocked'')
                   else Inr None))
      | _ \<Rightarrow> Inr None)"

text \<open>
  \<open>detectGesture(hands)\<close> in its two numbered blocks. Block 1, the two-hand rules:
  its result is the label it returns, or \<open>None\<close> when control reaches block 2.
\<close>

definition twoHandRules :: "hand list \<Rightarrow> error + string option" where
  "twoHandRules hands =
     (if length hands \<ge> 2 then
        (case (find (\<lambda>h. handedness h = ''Left'') hands,
               find (\<lambda>h. handedness h = ''Right'') hands) of
           (Some lft, Some rgt) \<Rightarrow>
             (case (keypoints lft, keypoints rgt) of
                (Some leftLm, Some rightLm) \<Rightarrow>
                  ebind (checkFingerInterlocked (Some leftLm) (Some rightLm)) (\<lambda>g.
                    if truthy g then Inr g
                    else ebind (checkOpenPalm (Some leftLm) (Some rightLm)) (\<lambda>g.
                      if truthy g then Inr g else Inr None))
              | _ \<Rightarrow> Inr None)
         | _ \<Rightarrow> Inr None)
      else Inr None)"

text \<open>
  Block 2, the loop over the hands; the calls of \<open>checkFingerPointing\<close> and
  \<open>checkPalmUpward\<close> are commented out in the source and are no part of the loop.
\<close>

fun singleHandRules :: "hand list \<Rightarrow> error + string option" where
  "singleHandRules [] = Inr None"
| "singleHandRules (h # rest) =
     (case keypoints h of
        None \<Rightarrow> singleHandRules rest
      | Some landmarks \<Rightarrow>
          (case checkMiddleFinger landmarks of
             Inl e \<Rightarrow> Inl e
           | Inr g \<Rightarrow> if truthy g then Inr g else singleHandRules rest))"

definition detectGesture :: "hand list option \<Rightarrow> error + string option" where
  "detectGesture hands =
     (case hands of
        None \<Rightarrow> Inr None
      | Some hs \<Rightarrow>
          if length hs = 0 then Inr None
          else ebind (twoHandRules hs) (\<lambda>g.
                 if truthy g then Inr g else singleHandRules hs))"


section \<open>Numbers of the gaze demo\<close>

text \<open>
  The gaze demo divides without testing the divisor, so its numbers can be infinite or
  \<open>NaN\<close>. \<open>Fin r\<close> is the finite number \<open>r\<close>. A zero is the positive zero: the
  difference of two equal finite numbers is \<open>+0\<close>.
\<close>

datatype jsnum = Fin real | PosInf | NegInf | NaN

fun jsadd :: "jsnum \<Rightarrow> jsnum \<Rightarrow> jsnum" where
  "jsadd (Fin a) (Fin b) = Fin (a + b)"
| "jsadd NaN _ = NaN"
| "jsadd _ NaN = NaN"
| "jsadd PosInf NegInf = NaN"
| "jsadd NegInf PosInf = NaN"
| "jsadd PosInf _ = PosInf"
| "jsadd _ PosInf = PosInf"
| "jsadd NegInf _ = NegInf"
| "jsadd _ NegInf = NegInf"

fun jsneg :: "jsnum \<Rightarrow> jsnum" where
  "jsneg (Fin a) = Fin (- a)"
| "jsneg PosInf = NegInf"
| "jsneg NegInf = PosInf"
| "jsneg NaN = NaN"

definition jssub :: "jsnum \<Rightarrow> jsnum \<Rightarrow> jsnum" where
  "jssub a b = jsadd a (jsneg b)"

fun jsdiv :: "jsnum \<Rightarrow> jsnum \<Rightarrow> jsnum" where
  "jsdiv NaN _ = NaN"
| "jsdiv _ NaN = NaN"
| "jsdiv (Fin a) (Fin b) =
     (if b \<noteq> 0 then Fin (a / b)
      else if a > 0 then PosInf else if a < 0 then NegInf else NaN)"
| "jsdiv (Fin a) PosInf = Fin 0"
| "jsdiv (Fin a) NegInf = Fin 0"
| "jsdiv PosInf (Fin b) = (if b \<ge> 0 then PosInf else NegInf)"
| "jsdiv NegInf (Fin b) = (if b \<ge> 0 then NegInf else PosInf)"
| "jsdiv PosInf PosInf = NaN"
| "jsdiv PosInf NegInf = NaN"
| "jsdiv NegInf PosInf = NaN"
| "jsdiv NegInf NegInf = NaN"

fun jslt :: "jsnum \<Rightarrow> jsnum \<Rightarrow> bool" where
  "jslt NaN _ = False"
| "jslt _ NaN = False"
| "jslt (Fin a) (Fin b) = (a < b)"
| "jslt (Fin a) PosInf = True"
| "jslt (Fin a) NegInf = False"
| "jslt PosInf _ = False"
| "jslt NegInf NegInf = False"
| "jslt NegInf _ = True"

definition jsgt :: "jsnum \<Rightarrow> jsnum \<Rightarrow> bool" where
  "jsgt a b = jslt b a"

section \<open>The gaze demo\<close>

text \<open>
  \<open>getIrisCenter(irisPoints)\<close>: the loop adds the coordinates of the points in order,
  and throws at the first undefined one.
\<close>

fun irisSums :: "real point option list \<Rightarrow> real \<Rightarrow> real \<Rightarrow> error + real \<times> real" where
  "irisSums [] sumX sumY = Inr (sumX, sumY)"
| "irisSums (p # ps) sumX sumY =
     (case deref p of
        Inl e \<Rightarrow> Inl e
      | Inr q \<Rightarrow> irisSums ps (sumX + x q) (sumY + y q))"

definition getIrisCenter :: "real point option list \<Rightarrow> error + jsnum point" where
  "getIrisCenter irisPoints =
     ebind (irisSums irisPoints 0 0) (\<lambda>(sumX, sumY).
       Inr \<lparr>x = jsdiv (Fin sumX) (Fin (real (length irisPoints))),
            y = jsdiv (Fin sumY) (Fin (real (length irisPoints)))\<rparr>)"

text \<open>The objects \<open>leftEye\<close> and \<open>rightEye\<close> of \<open>detectGazeDirection\<close>.\<close>

record eye =
  eleft :: "real point option"
  eright :: "real point option"
  etop :: "real point option"
  ebottom :: "real point option"
  epupil :: "jsnum point"
  ecenter :: "real point option"

text \<open>The coordinate of a possibly undefined landmark, as a number of the gaze demo.\<close>

definition coord :: "(real point \<Rightarrow> real) \<Rightarrow> real point option \<Rightarrow> error + jsnum" where
  "coord f p = ebind (deref p) (\<lambda>q. Inr (Fin (f q)))"

text \<open>
  \<open>(pupil - lo) / (hi - lo)\<close> for one eye and one axis, the summand of \<open>relX\<close> and \<open>relY\<close>.
\<close>

definition relPos :: "jsnum \<Rightarrow> error + jsnum \<Rightarrow> error + jsnum \<Rightarrow> error + jsnum" where
  "relPos pupil lo hi =
     ebind lo (\<lambda>l. ebind hi (\<lambda>h. Inr (jsdiv (jssub pupil l) (jssub h l))))"

text \<open>
  The first part of \<open>detectGazeDirection(face)\<close>, up to the constants \<open>relX\<close> and
  \<open>relY\<close>, which it returns as a pair.
\<close>

definition gazeRel :: "face \<Rightarrow> error + jsnum \<times> jsnum" where
  "gazeRel fc =
     (let kps = keypointsF fc;
          leftIris = [idx kps 468, idx kps 469, idx kps 470, idx kps 471, idx kps 472]
      in ebind (getIrisCenter leftIris) (\<lambda>leftPupil.
         let rightIris = [idx kps 473, idx kps 474, idx kps 475, idx kps 476, idx kps 477]
         in ebind (getIrisCenter rightIris) (\<lambda>rightPupil.
            let leftEye = \<lparr>eleft = idx kps 33, eright = idx kps 133, etop = idx kps 159,
                           ebottom = idx kps 145, epupil = leftPupil, ecenter = idx kps 468\<rparr>;
                rightEye = \<lparr>eleft = idx kps 362, eright = idx kps 263, etop = idx kps 386,
                            ebottom = idx kps 374, epupil = rightPupil, ecenter = idx kps 473\<rparr>
            in ebind (relPos (x (epupil leftEye)) (coord x (eleft leftEye))
                        (coord x (eright leftEye))) (\<lambda>lx.
               ebind (relPos (x (epupil rightEye)) (coord x (eleft rightEye))
                        (coord x (eright rightEye))) (\<lambda>rx.
               let relX = jsdiv (jsadd lx rx) (Fin 2)
               in ebind (relPos (y (epupil leftEye)) (coord y (etop leftEye))
                           (coord y (ebottom leftEye))) (\<lambda>ly.
                  ebind (relPos (y (epupil rightEye)) (coord y (etop rightEye))
                           (coord y (ebottom rightEye))) (\<lambda>ry.
                  let relY = jsdiv (jsadd ly ry) (Fin 2)
                  in Inr (relX, relY))))))))"

text \<open>The second part of \<open>detectGazeDirection\<close>: the chain of tests on \<open>relX\<close> and \<open>relY\<close>.\<close>

definition gazeOf :: "jsnum \<Rightarrow> jsnum \<Rightarrow> string" where
  "gazeOf relX relY =
     (if jslt relX (Fin (35 / 100)) then ''RIGHT''
      else if jsgt relX (Fin (65 / 100)) then ''LEFT''
      else if jslt relY (Fin (3 / 10)) \<and> jsgt relY (Fin 0) then ''UP''
      else if jslt relY (Fin 0) then ''DOWN''
      else ''CENTER'')"

definition detectGazeDirection :: "face \<Rightarrow> error + string" where
  "detectGazeDirection fc = ebind (gazeRel fc) (\<lambda>(relX, relY). Inr (gazeOf relX relY))"

section \<open>The rules in the words of the specification\<close>

text \<open>
  The definitions of this section follow the specification, not the source; the theorems
  below compare them with the functions above. A finger is straight when its two joint
  triples are colinear in 2D at tolerance 0.15; the tested fingers are index, middle, ring
  and pinky, each given by its MCP, PIP, DIP and TIP indices.
\<close>

definition fingerStraight :: "real point list \<Rightarrow> nat \<times> nat \<times> nat \<times> nat \<Rightarrow> bool" where
  "fingerStraight h = (\<lambda>(m, p, d, t).
     arePointsColinear2D (h ! m) (h ! p) (h ! t) (15 / 100) \<and>
     arePointsColinear2D (h ! p) (h ! d) (h ! t) (15 / 100))"

definition straightFingers :: "real point list \<Rightarrow> nat" where
  "straightFingers h =
     length (filter (fingerStraight h)
       [(5, 6, 7, 8), (9, 10, 11, 12), (13, 14, 15, 16), (17, 18, 19, 20)])"

text \<open>The number of the five compared joint pairs that are closer than 40 pixels.\<close>

definition closeJoints :: "real point list \<Rightarrow> real point list \<Rightarrow> nat" where
  "closeJoints L R = length (filter (\<lambda>i. distance2D (L ! i) (R ! i) < 40) [3, 6, 10, 14, 18])"

definition palmsOpen :: "real point list \<Rightarrow> real point list \<Rightarrow> bool" where
  "palmsOpen L R \<longleftrightarrow>
     3 \<le> straightFingers L \<and> 3 \<le> straightFingers R \<and>
     areLinesParallel2D (L ! 0) (L ! 12) (R ! 0) (R ! 12) 20"

definition middleFingerUp :: "real point list \<Rightarrow> bool" where
  "middleFingerUp lm \<longleftrightarrow>
     y (lm ! 12) < y (lm ! 10) \<and> y (lm ! 8) > y (lm ! 6) \<and>
     y (lm ! 16) > y (lm ! 14) \<and> y (lm ! 20) > y (lm ! 18)"

text \<open>
  Phase 1 applies when there are at least two hands, one is tagged \<open>Left\<close> and one
  \<open>Right\<close> (the first of each tag counts), and both have 2D keypoints.
\<close>

definition twoHands :: "hand list \<Rightarrow> (real point list \<times> real point list) option" where
  "twoHands hs =
     (if 2 \<le> length hs then
        (case (find (\<lambda>h. handedness h = ''Left'') hs,
               find (\<lambda>h. handedness h = ''Right'') hs) of
           (Some l, Some r) \<Rightarrow>
             (case (keypoints l, keypoints r) of
                (Some L, Some R) \<Rightarrow> Some (L, R)
              | _ \<Rightarrow> None)
         | _ \<Rightarrow> None)
      else None)"

definition gestureSpec :: "hand list \<Rightarrow> string option" where
  "gestureSpec hs =
     (if (case twoHands hs of Some (L, R) \<Rightarrow> 3 \<le> closeJoints L R | None \<Rightarrow> False)
        then Some ''Finger Interlocked''
      else if (case twoHands hs of Some (L, R) \<Rightarrow> palmsOpen L R | None \<Rightarrow> False)
        then Some ''Open Palm''
      else if list_ex (\<lambda>h. case keypoints h of Some lm \<Rightarrow> middleFingerUp lm | None \<Rightarrow> False) hs
        then Some ''Middle Finger''
      else None)"

text \<open>A hand sequence honours the landmark scheme when every 2D landmark array has 21 points.\<close>

definition wellFormedHands :: "hand list \<Rightarrow> bool" where
  "wellFormedHands hs =
     list_all (\<lambda>h. case keypoints h of Some lm \<Rightarrow> length lm = 21 | None \<Rightarrow> True) hs"

text \<open>
  The relative pupil position of the specification, in real arithmetic: the pupil is the
  mean of the five iris landmarks, and its position is taken relative to the two eye
  corners (horizontally) or the two lids (vertically), averaged over both eyes.
\<close>

definition meanOf :: "real list \<Rightarrow> real" where
  "meanOf vs = sum_list vs / real (length vs)"

definition eyeRel :: "real \<Rightarrow> real \<Rightarrow> real \<Rightarrow> real" where
  "eyeRel pupil lo hi = (pupil - lo) / (hi - lo)"

definition relXSpec :: "real point list \<Rightarrow> real" where
  "relXSpec kps =
     (eyeRel (meanOf (map (\<lambda>i. x (kps ! i)) [468, 469, 470, 471, 472]))
        (x (kps ! 33)) (x (kps ! 133)) +
      eyeRel (meanOf (map (\<lambda>i. x (kps ! i)) [473, 474, 475, 476, 477]))
        (x (kps ! 362)) (x (kps ! 263))) / 2"

definition relYSpec :: "real point list \<Rightarrow> real" where
  "relYSpec kps =
     (eyeRel (meanOf (map (\<lambda>i. y (kps ! i)) [468, 469, 470, 471, 472]))
        (y (kps ! 159)) (y (kps ! 145)) +
      eyeRel (meanOf (map (\<lambda>i. y (kps ! i)) [473, 474, 475, 476, 477]))
        (y (kps ! 386)) (y (kps ! 374))) / 2"

text \<open>Both eyes have a width and a height other than zero, so no division is by zero.\<close>

definition eyesNondegenerate :: "real point list \<Rightarrow> bool" where
  "eyesNondegenerate kps \<longleftrightarrow>
     x (kps ! 133) \<noteq> x (kps ! 33) \<and> x (kps ! 263) \<noteq> x (kps ! 362) \<and>
     y (kps ! 145) \<noteq> y (kps ! 159) \<and> y (kps ! 374) \<noteq> y (kps ! 386)"

section \<open>Concrete inputs\<close>

text \<open>
  A hand with all 21 landmarks on the vertical line at abscissa \<open>c\<close>, landmark \<open>i\<close> at
  ordinate \<open>i\<close>: every finger is straight.
\<close>

definition lineHand :: "real \<Rightarrow> real point list" where
  "lineHand c = map (\<lambda>i. \<lparr>x = c, y = real i\<rparr>) [0..<21]"

text \<open>The same hand with the four PIP joints (6, 10, 14, 18) moved 5 pixels aside: no finger is straight.\<close>

definition bentHand :: "real \<Rightarrow> real point list" where
  "bentHand c = map (\<lambda>i. \<lparr>x = (if i mod 4 = 2 then c + 5 else c), y = real i\<rparr>) [0..<21]"

text \<open>
  A hand whose middle fingertip (12) is above its PIP joint and whose index, ring and
  pinky fingertips (8, 16, 20) are below theirs.
\<close>

definition middleHand :: "real point list" where
  "middleHand =
     map (\<lambda>i. \<lparr>x = 0, y = (if i = 12 then 0 else if i = 8 \<or> i = 16 \<or> i = 20 then 20 else 10)\<rparr>)
       [0..<21]"

definition mkHand :: "string \<Rightarrow> real point list \<Rightarrow> hand" where
  "mkHand tag lm = \<lparr>handedness = tag, keypoints = Some lm, keypoints3D = None\<rparr>"

text \<open>
  A face of 478 landmarks whose eyes both span \<open>[0, 1]\<close> horizontally and vertically and
  whose iris landmarks all lie at \<open>(u, v)\<close>, so that \<open>relX = u\<close> and \<open>relY = v\<close>.
\<close>

definition gazeFace :: "real \<Rightarrow> real \<Rightarrow> face" where
  "gazeFace u v =
     \<lparr>keypointsF = map (\<lambda>i.
        if i = 33 \<or> i = 362 \<or> i = 159 \<or> i = 386 then \<lparr>x = 0, y = 0\<rparr>
        else if i = 133 \<or> i = 263 then \<lparr>x = 1, y = 0\<rparr>
        else if i = 145 \<or> i = 374 then \<lparr>x = 0, y = 1\<rparr>
        else \<lparr>x = u, y = v\<rparr>) [0..<478]\<rparr>"

section \<open>Basic facts about faults and absent values\<close>

lemma idx_in [simp]: "i < length xs \<Longrightarrow> idx xs i = Some (xs ! i)"
  by (simp add: idx_def)

lemma ebind_simps [simp]: "ebind (Inr a) f = f a" "ebind (Inl e) f = Inl e"
  by (simp_all add: ebind_def)

lemma deref_simps [simp]: "deref (Some a) = Inr a" "deref None = Inl TypeError"
  by (simp_all add: deref_def)

lemma lift2_Some [simp]: "lift2 f (Some a) (Some b) = Inr (f a b)"
  by (simp add: lift2_def)

lemma lift3_Some [simp]: "lift3 f (Some a) (Some b) (Some c) = Inr (f a b c)"
  by (simp add: lift3_def)

lemma lift4_Some [simp]: "lift4 f (Some a) (Some b) (Some c) (Some d) = Inr (f a b c d)"
  by (simp add: lift4_def)

lemma andalso_Inr [simp]: "andalso (Inr a) b = (if a then b else Inr False)"
  by (simp add: andalso_def)

lemma truthy_simps [simp]: "truthy None = False" "truthy (Some s) = (s \<noteq> [])"
  by (simp_all add: truthy_def)

section \<open>Square roots out of the comparisons\<close>

lemma distance2D_less_iff:
  "distance2D p q < t \<longleftrightarrow> 0 < t \<and> (x p - x q)\<^sup>2 + (y p - y q)\<^sup>2 < t\<^sup>2"
proof -
  let ?s = "(x p - x q)\<^sup>2 + (y p - y q)\<^sup>2"
  have d: "distance2D p q = sqrt ?s"
    by (simp add: distance2D_def Let_def power2_eq_square)
  have nn: "0 \<le> sqrt ?s" by simp
  show ?thesis
  proof (cases "0 < t")
    case True
    then have "sqrt ?s < t \<longleftrightarrow> sqrt ?s < sqrt (t\<^sup>2)" by simp
    also have "\<dots> \<longleftrightarrow> ?s < t\<^sup>2" by (rule real_sqrt_less_iff)
    finally show ?thesis using True d by simp
  next
    case False
    then show ?thesis using nn d by linarith
  qed
qed

lemma arePointsColinear2D_iff:
  "arePointsColinear2D p1 p2 p3 t \<longleftrightarrow>
     (let a = x p2 - x p1; b = y p2 - y p1; c = x p3 - x p1; d = y p3 - y p1
      in (a \<noteq> 0 \<or> b \<noteq> 0) \<and> (c \<noteq> 0 \<or> d \<noteq> 0) \<and> 0 < t \<and>
         (a * d - b * c)\<^sup>2 < t\<^sup>2 * (a\<^sup>2 + b\<^sup>2) * (c\<^sup>2 + d\<^sup>2))"
proof -
  define a b c d where "a = x p2 - x p1" and "b = y p2 - y p1"
    and "c = x p3 - x p1" and "d = y p3 - y p1"
  define n where "n = sqrt (a\<^sup>2 + b\<^sup>2) * sqrt (c\<^sup>2 + d\<^sup>2)"
  have n0: "0 \<le> n" by (simp add: n_def)
  have nz: "n = 0 \<longleftrightarrow> (a = 0 \<and> b = 0) \<or> (c = 0 \<and> d = 0)"
    by (simp add: n_def)
  have n2: "n\<^sup>2 = (a\<^sup>2 + b\<^sup>2) * (c\<^sup>2 + d\<^sup>2)"
    by (simp add: n_def power_mult_distrib)
  have unfold: "arePointsColinear2D p1 p2 p3 t \<longleftrightarrow> n \<noteq> 0 \<and> \<bar>a * d - b * c\<bar> / n < t"
    by (simp add: arePointsColinear2D_def Let_def a_def b_def c_def d_def n_def)
  have core: "\<bar>a * d - b * c\<bar> / n < t \<longleftrightarrow> 0 < t \<and> (a * d - b * c)\<^sup>2 < t\<^sup>2 * n\<^sup>2" if "n \<noteq> 0"
  proof -
    from that n0 have np: "0 < n" by simp
    have "\<bar>a * d - b * c\<bar> / n < t \<longleftrightarrow> \<bar>a * d - b * c\<bar> < t * n"
      using np by (simp add: pos_divide_less_eq)
    also have "\<dots> \<longleftrightarrow> 0 < t \<and> (a * d - b * c)\<^sup>2 < (t * n)\<^sup>2"
    proof (cases "0 < t")
      case True
      then have "0 \<le> t * n" using n0 by simp
      then show ?thesis using True
        by (metis abs_le_square_iff abs_of_nonneg not_le)
    next
      case False
      then have "t * n \<le> 0" using n0 by (simp add: mult_le_0_iff)
      then show ?thesis using False abs_ge_zero [of "a * d - b * c"] by linarith
    qed
    finally show ?thesis by (simp add: power_mult_distrib)
  qed
  show ?thesis
    unfolding unfold Let_def a_def [symmetric] b_def [symmetric] c_def [symmetric] d_def [symmetric]
    using core nz n2 by (auto simp: mult.assoc)
qed

section \<open>The rules on hands that honour the landmark scheme\<close>

lemma interlockedLoop_defined:
  "length qs = length ps \<Longrightarrow>
     interlockedLoop (map Some ps) (map Some qs) t i c =
       Inr (c + length (filter (\<lambda>(p, q). distance2D p q < t) (drop i (zip ps qs))))"
proof (induction n \<equiv> "length ps - i" arbitrary: i c)
  case 0
  then show ?case by (subst interlockedLoop.simps) simp
next
  case (Suc n)
  then have lt: "i < length ps" and n: "n = length ps - (i + 1)" by simp_all
  have d: "drop i (zip ps qs) = (ps ! i, qs ! i) # drop (i + 1) (zip ps qs)"
    using lt Suc.prems by (simp add: Cons_nth_drop_Suc [symmetric])
  let ?c = "if distance2D (ps ! i) (qs ! i) < t then c + 1 else c"
  have step: "interlockedLoop (map Some ps) (map Some qs) t i c =
              interlockedLoop (map Some ps) (map Some qs) t (i + 1) ?c"
    using lt Suc.prems by (subst interlockedLoop.simps) (simp add: Let_def)
  show ?case
    unfolding step Suc.hyps(1) [OF n Suc.prems, of ?c] d by simp
qed

lemma checkFingerInterlocked_count:
  assumes "length L = 21" "length R = 21"
  shows "checkFingerInterlocked (Some L) (Some R) =
           Inr (if 3 \<le> closeJoints L R then Some ''Finger Interlocked'' else None)"
proof -
  let ?ps = "[L ! 3, L ! 6, L ! 10, L ! 14, L ! 18]"
  let ?qs = "[R ! 3, R ! 6, R ! 10, R ! 14, R ! 18]"
  have l: "map (\<lambda>i. idx L i) [3, 6, 10, 14, 18] = map Some ?ps"
    using assms by simp
  have r: "map (\<lambda>i. idx R i) [3, 6, 10, 14, 18] = map Some ?qs"
    using assms by simp
  have z: "length (filter (\<lambda>(p, q). distance2D p q < 40) (drop 0 (zip ?ps ?qs))) =
           closeJoints L R"
    by (simp add: closeJoints_def)
  have loop: "interlockedLoop (map (\<lambda>i. idx L i) [3, 6, 10, 14, 18])
                (map (\<lambda>i. idx R i) [3, 6, 10, 14, 18]) 40 0 0 = Inr (closeJoints L R)"
    unfolding l r by (subst interlockedLoop_defined) (simp_all only: z add_0 list.size)
  show ?thesis
    unfolding checkFingerInterlocked_def Let_def prod.case option.case loop ebind_simps
    by (rule if_distrib [symmetric])
qed

lemma isFingerStraight_defined:
  "m < length h \<Longrightarrow> p < length h \<Longrightarrow> d < length h \<Longrightarrow> t < length h \<Longrightarrow>
     isFingerStraight h m p d t tol =
       Inr (arePointsColinear2D (h ! m) (h ! p) (h ! t) tol \<and>
            arePointsColinear2D (h ! p) (h ! d) (h ! t) tol)"
  by (simp add: isFingerStraight_def Let_def)

lemma isHandOpen_count:
  "length h = 21 \<Longrightarrow> isHandOpen (Some h) = Inr (3 \<le> straightFingers h)"
  by (simp add: isHandOpen_def isFingerStraight_defined straightFingers_def fingerStraight_def
      Let_def)

lemma checkOpenPalm_defined:
  "length L = 21 \<Longrightarrow> length R = 21 \<Longrightarrow>
     checkOpenPalm (Some L) (Some R) = Inr (if palmsOpen L R then Some ''Open Palm'' else None)"
  by (simp add: checkOpenPalm_def isHandOpen_count palmsOpen_def Let_def)

lemma checkMiddleFinger_defined:
  "length lm = 21 \<Longrightarrow>
     checkMiddleFinger lm = Inr (if middleFingerUp lm then Some ''Middle Finger'' else None)"
  by (simp add: checkMiddleFinger_def middleFingerUp_def Let_def)

lemma singleHandRules_defined:
  "wellFormedHands hs \<Longrightarrow>
     singleHandRules hs =
       Inr (if list_ex (\<lambda>h. case keypoints h of Some lm \<Rightarrow> middleFingerUp lm | None \<Rightarrow> False) hs
            then Some ''Middle Finger'' else None)"
proof (induction hs)
  case Nil
  show ?case by simp
next
  case (Cons h hs)
  then have wf: "wellFormedHands hs" by (simp add: wellFormedHands_def)
  show ?case
  proof (cases "keypoints h")
    case None
    then show ?thesis using Cons.IH [OF wf] by simp
  next
    case (Some lm)
    then have "length lm = 21" using Cons.prems by (simp add: wellFormedHands_def)
    then show ?thesis using Some Cons.IH [OF wf] by (simp add: checkMiddleFinger_defined)
  qed
qed

lemma find_wellFormed:
  "wellFormedHands hs \<Longrightarrow> find P hs = Some h \<Longrightarrow> keypoints h = Some lm \<Longrightarrow> length lm = 21"
proof -
  assume wf: "wellFormedHands hs" and f: "find P hs = Some h" and k: "keypoints h = Some lm"
  from f have "h \<in> set hs" by (auto simp: find_Some_iff)
  with wf k show ?thesis by (auto simp: wellFormedHands_def list_all_iff)
qed

lemma twoHands_wellFormed:
  "wellFormedHands hs \<Longrightarrow> twoHands hs = Some (L, R) \<Longrightarrow> length L = 21 \<and> length R = 21"
  by (auto simp: twoHands_def split: if_splits option.splits dest: find_wellFormed)

lemma twoHandRules_None: "twoHands hs = None \<Longrightarrow> twoHandRules hs = Inr None"
  by (auto simp: twoHands_def twoHandRules_def split: if_splits option.splits)

lemma twoHandRules_Some:
  "twoHands hs = Some (L, R) \<Longrightarrow>
     twoHandRules hs =
       ebind (checkFingerInterlocked (Some L) (Some R)) (\<lambda>g.
         if truthy g then Inr g
         else ebind (checkOpenPalm (Some L) (Some R)) (\<lambda>g. if truthy g then Inr g else Inr None))"
  by (auto simp: twoHands_def twoHandRules_def split: if_splits option.splits)

lemma twoHandRules_defined:
  assumes "wellFormedHands hs"
  shows "twoHandRules hs =
           Inr (case twoHands hs of
                  None \<Rightarrow> None
                | Some (L, R) \<Rightarrow>
                    if 3 \<le> closeJoints L R then Some ''Finger Interlocked''
                    else if palmsOpen L R then Some ''Open Palm'' else None)"
proof (cases "twoHands hs")
  case None
  then show ?thesis by (simp add: twoHandRules_None)
next
  case (Some lr)
  obtain L R where lr: "lr = (L, R)" by (cases lr)
  from assms Some lr have len: "length L = 21" "length R = 21"
    using twoHands_wellFormed by blast+
  show ?thesis
    using Some lr len
    by (simp add: twoHandRules_Some checkFingerInterlocked_count checkOpenPalm_defined)
qed

lemma detectGesture_defined:
  assumes "wellFormedHands hs"
  shows "detectGesture (Some hs) = Inr (gestureSpec hs)"
proof (cases "hs = []")
  case True
  then show ?thesis by (simp add: detectGesture_def gestureSpec_def twoHands_def)
next
  case False
  show ?thesis
  proof (cases "twoHands hs")
    case None
    then show ?thesis using False assms
      by (simp add: detectGesture_def gestureSpec_def twoHandRules_defined singleHandRules_defined)
  next
    case (Some lr)
    obtain L R where lr: "lr = (L, R)" by (cases lr)
    show ?thesis using False assms Some lr
      by (simp add: detectGesture_def gestureSpec_def twoHandRules_defined singleHandRules_defined)
  qed
qed

section \<open>The labels a rule can return\<close>

lemma checkMiddleFinger_label:
  "checkMiddleFinger lm = Inr (Some s) \<Longrightarrow> s = ''Middle Finger''"
  by (auto simp: checkMiddleFinger_def Let_def ebind_def split: sum.splits if_splits)

lemma checkFingerInterlocked_label:
  "checkFingerInterlocked a b = Inr (Some s) \<Longrightarrow> s = ''Finger Interlocked''"
  by (auto simp: checkFingerInterlocked_def Let_def ebind_def
      split: sum.splits if_splits option.splits)

lemma checkOpenPalm_label:
  "checkOpenPalm a b = Inr (Some s) \<Longrightarrow> s = ''Open Palm''"
  by (auto simp: checkOpenPalm_def Let_def ebind_def split: sum.splits if_splits option.splits)

lemma singleHandRules_label:
  "singleHandRules hs = Inr (Some s) \<Longrightarrow> s = ''Middle Finger''"
proof (induction hs)
  case Nil
  then show ?case by simp
next
  case (Cons h hs)
  then show ?case
    by (auto split: option.splits sum.splits if_splits dest: checkMiddleFinger_label)
qed

lemma twoHandRules_label:
  "twoHandRules hs = Inr (Some s) \<Longrightarrow> s = ''Finger Interlocked'' \<or> s = ''Open Palm''"
  by (auto simp: twoHandRules_def ebind_def split: if_splits option.splits sum.splits
      dest: checkFingerInterlocked_label checkOpenPalm_label)

lemma detectGesture_label:
  "detectGesture inp = Inr (Some s) \<Longrightarrow>
     s = ''Finger Interlocked'' \<or> s = ''Open Palm'' \<or> s = ''Middle Finger''"
  by (auto simp: detectGesture_def ebind_def split: option.splits if_splits sum.splits
      dest: twoHandRules_label singleHandRules_label)

section \<open>The concrete hands\<close>

lemma nth_lineHand [simp]: "i < 21 \<Longrightarrow> lineHand c ! i = \<lparr>x = c, y = real i\<rparr>"
  by (simp add: lineHand_def)

lemma nth_bentHand [simp]:
  "i < 21 \<Longrightarrow> bentHand c ! i = \<lparr>x = (if i mod 4 = 2 then c + 5 else c), y = real i\<rparr>"
  by (simp add: bentHand_def)

lemma nth_middleHand [simp]:
  "i < 21 \<Longrightarrow> middleHand ! i =
     \<lparr>x = 0, y = (if i = 12 then 0 else if i = 8 \<or> i = 16 \<or> i = 20 then 20 else 10)\<rparr>"
  by (simp add: middleHand_def)

lemma length_hands [simp]:
  "length (lineHand c) = 21" "length (bentHand c) = 21" "length middleHand = 21"
  by (simp_all add: lineHand_def bentHand_def middleHand_def)

lemma straight_lineHand [simp]: "straightFingers (lineHand c) = 4"
  by (simp add: straightFingers_def fingerStraight_def arePointsColinear2D_iff)

lemma straight_bentHand [simp]: "straightFingers (bentHand c) = 0"
  by (simp add: straightFingers_def fingerStraight_def arePointsColinear2D_iff power2_eq_square)

lemma parallel_vertical [simp]:
  "areLinesParallel2D \<lparr>x = a, y = 0\<rparr> \<lparr>x = a, y = 12\<rparr> \<lparr>x = b, y = 0\<rparr> \<lparr>x = b, y = 12\<rparr> 20"
  by (simp add: areLinesParallel2D_def Let_def)

lemma closeJoints_lineHand [simp]:
  "closeJoints (lineHand 0) (lineHand 10) = 5"
  "closeJoints (lineHand 0) (lineHand 40) = 0"
  "closeJoints (lineHand 0) (lineHand 100) = 0"
  by (simp_all add: closeJoints_def distance2D_less_iff)

section \<open>Gaze: the relative pupil position\<close>

lemma getIrisCenter_five:
  "getIrisCenter [Some a, Some b, Some c, Some d, Some e] =
     Inr \<lparr>x = Fin (meanOf (map x [a, b, c, d, e])), y = Fin (meanOf (map y [a, b, c, d, e]))\<rparr>"
  by (simp add: getIrisCenter_def meanOf_def)

lemma relPos_Fin:
  "relPos (Fin p) (coord f (Some lo)) (coord f (Some hi)) =
     Inr (jsdiv (Fin (p - f lo)) (Fin (f hi - f lo)))"
  by (simp add: relPos_def coord_def jssub_def)

lemma gazeRel_total:
  assumes "length (keypointsF fc) = 478"
  shows "\<exists>relX relY. gazeRel fc = Inr (relX, relY)"
  using assms by (simp add: gazeRel_def Let_def getIrisCenter_five relPos_Fin)

lemma gazeRel_nondegenerate:
  assumes "length (keypointsF fc) = 478" "eyesNondegenerate (keypointsF fc)"
  shows "gazeRel fc = Inr (Fin (relXSpec (keypointsF fc)), Fin (relYSpec (keypointsF fc)))"
  using assms
  by (simp add: gazeRel_def Let_def getIrisCenter_five relPos_Fin eyesNondegenerate_def
      relXSpec_def relYSpec_def eyeRel_def)

lemma gazeRel_gazeFace [simp]: "gazeRel (gazeFace u v) = Inr (Fin u, Fin v)"
  by (simp add: gazeRel_def gazeFace_def Let_def getIrisCenter_five relPos_Fin meanOf_def)

lemma length_gazeFace [simp]: "length (keypointsF (gazeFace u v)) = 478"
  by (simp add: gazeFace_def)

lemma nondegenerate_gazeFace [simp]: "eyesNondegenerate (keypointsF (gazeFace u v))"
  by (simp add: gazeFace_def eyesNondegenerate_def)

lemma distance2D_eq_iff:
  "0 \<le> t \<Longrightarrow> distance2D p q = t \<longleftrightarrow> (x p - x q)\<^sup>2 + (y p - y q)\<^sup>2 = t\<^sup>2"
proof -
  assume t: "0 \<le> t"
  have "distance2D p q = sqrt ((x p - x q)\<^sup>2 + (y p - y q)\<^sup>2)"
    by (simp add: distance2D_def Let_def power2_eq_square)
  moreover have "t = sqrt (t\<^sup>2)" using t by simp
  ultimately show ?thesis by (metis real_sqrt_eq_iff)
qed

section \<open>The claims\<close>

text \<open>
  Claim C1. On every hand sequence that honours the landmark scheme, \<open>detectGesture\<close>
  returns what the fixed rule order of \<open>gestureSpec\<close> gives: Finger Interlocked, then
  Open Palm (both only in phase 1), then Middle Finger for the hands in their order, and
  no gesture otherwise. Phase 1 applies only when there are at least two hands, one tagged
  Left and one tagged Right, both with 2D keypoints. The empty and the absent sequence
  give no gesture, and no input at all makes \<open>detectGesture\<close> return \<open>Pointing\<close> or
  \<open>Palm Upward\<close>.
\<close>

theorem detectGesture_rule_order:
  "(wellFormedHands hs \<longrightarrow> detectGesture (Some hs) = Inr (gestureSpec hs)) \<and>
   (twoHands hs = Some (L, R) \<longrightarrow>
      2 \<le> length hs \<and>
      (\<exists>l \<in> set hs. handedness l = ''Left'' \<and> keypoints l = Some L) \<and>
      (\<exists>r \<in> set hs. handedness r = ''Right'' \<and> keypoints r = Some R)) \<and>
   detectGesture (Some []) = Inr None \<and>
   detectGesture None = Inr None \<and>
   detectGesture inp \<noteq> Inr (Some ''Pointing'') \<and>
   detectGesture inp \<noteq> Inr (Some ''Palm Upward'')"
proof -
  have a: "wellFormedHands hs \<longrightarrow> detectGesture (Some hs) = Inr (gestureSpec hs)"
    by (simp add: detectGesture_defined)
  have b: "twoHands hs = Some (L, R) \<longrightarrow>
      2 \<le> length hs \<and>
      (\<exists>l \<in> set hs. handedness l = ''Left'' \<and> keypoints l = Some L) \<and>
      (\<exists>r \<in> set hs. handedness r = ''Right'' \<and> keypoints r = Some R)"
    by (auto simp: twoHands_def find_Some_iff split: if_splits option.splits)
  have c: "detectGesture (Some []) = Inr None" "detectGesture None = Inr None"
    by (simp_all add: detectGesture_def)
  have d: "detectGesture inp \<noteq> Inr (Some ''Pointing'')"
    "detectGesture inp \<noteq> Inr (Some ''Palm Upward'')"
    using detectGesture_label [of inp] by auto
  from a b c d show ?thesis by blast
qed

theorem detectGesture_rule_order_witness:
  "wellFormedHands [mkHand ''Left'' (lineHand 0), mkHand ''Right'' (lineHand 100)] \<and>
   twoHands [mkHand ''Left'' (lineHand 0), mkHand ''Right'' (lineHand 100)] =
     Some (lineHand 0, lineHand 100) \<and>
   detectGesture (Some [mkHand ''Left'' (lineHand 0), mkHand ''Right'' (lineHand 100)]) =
     Inr (Some ''Open Palm'') \<and>
   wellFormedHands [mkHand ''Right'' (bentHand 0), mkHand ''Right'' middleHand] \<and>
   detectGesture (Some [mkHand ''Right'' (bentHand 0), mkHand ''Right'' middleHand]) =
     Inr (Some ''Middle Finger'')"
  using detectGesture_rule_order
          [of "[mkHand ''Left'' (lineHand 0), mkHand ''Right'' (lineHand 100)]"
              "lineHand 0" "lineHand 100"]
        detectGesture_rule_order [of "[mkHand ''Right'' (bentHand 0), mkHand ''Right'' middleHand]"]
  by (simp add: wellFormedHands_def mkHand_def gestureSpec_def twoHands_def palmsOpen_def
      middleFingerUp_def)

text \<open>
  Claim C2. On every face with the full 478 landmarks, \<open>detectGazeDirection\<close> computes
  \<open>relX\<close> and \<open>relY\<close> (the two-eye averages of the relative pupil position whenever no
  eye has zero width or height) and decides by first match: \<open>relX < 0.35\<close> gives RIGHT,
  else \<open>relX > 0.65\<close> gives LEFT, else \<open>0 < relY < 0.3\<close> gives UP, else \<open>relY < 0\<close>
  gives DOWN, otherwise CENTER. Whenever \<open>relX < 0.35\<close> or \<open>relX > 0.65\<close> the label
  is horizontal, whatever \<open>relY\<close> is.
\<close>

theorem gaze_decision_order:
  "length (keypointsF fc) = 478 \<Longrightarrow>
     (case gazeRel fc of
        Inl e \<Rightarrow> False
      | Inr (relX, relY) \<Rightarrow>
          (eyesNondegenerate (keypointsF fc) \<longrightarrow>
             relX = Fin (relXSpec (keypointsF fc)) \<and> relY = Fin (relYSpec (keypointsF fc))) \<and>
          detectGazeDirection fc =
            Inr (if jslt relX (Fin (35 / 100)) then ''RIGHT''
                 else if jsgt relX (Fin (65 / 100)) then ''LEFT''
                 else if jsgt relY (Fin 0) \<and> jslt relY (Fin (3 / 10)) then ''UP''
                 else if jslt relY (Fin 0) then ''DOWN''
                 else ''CENTER'') \<and>
          (jslt relX (Fin (35 / 100)) \<or> jsgt relX (Fin (65 / 100)) \<longrightarrow>
             detectGazeDirection fc = Inr ''RIGHT'' \<or> detectGazeDirection fc = Inr ''LEFT''))"
proof -
  assume len: "length (keypointsF fc) = 478"
  then obtain relX relY where r: "gazeRel fc = Inr (relX, relY)"
    using gazeRel_total by blast
  have spec: "relX = Fin (relXSpec (keypointsF fc)) \<and> relY = Fin (relYSpec (keypointsF fc))"
    if "eyesNondegenerate (keypointsF fc)"
    using gazeRel_nondegenerate [OF len that] r by simp
  have dec: "detectGazeDirection fc = Inr (gazeOf relX relY)"
    by (simp add: detectGazeDirection_def r)
  show ?thesis
    unfolding r using spec dec by (auto simp: gazeOf_def)
qed

theorem gaze_decision_order_witness:
  "length (keypointsF (gazeFace (1 / 4) (1 / 10))) = 478 \<and>
   eyesNondegenerate (keypointsF (gazeFace (1 / 4) (1 / 10))) \<and>
   gazeRel (gazeFace (1 / 4) (1 / 10)) = Inr (Fin (1 / 4), Fin (1 / 10)) \<and>
   relXSpec (keypointsF (gazeFace (1 / 4) (1 / 10))) = 1 / 4 \<and>
   relYSpec (keypointsF (gazeFace (1 / 4) (1 / 10))) = 1 / 10 \<and>
   jslt (Fin (1 / 4)) (Fin (35 / 100)) \<and>
   detectGazeDirection (gazeFace (1 / 4) (1 / 10)) = Inr ''RIGHT''"
  using gaze_decision_order [of "gazeFace (1 / 4) (1 / 10)"]
  by simp

text \<open>
  Claim C3 as stated fails at \<open>relY = 0\<close>: a face with \<open>relX = 0.5\<close> and \<open>relY = 0\<close>
  is classified CENTER, not UP, because the test for UP is \<open>relY < 0.3 && relY > 0\<close>.
\<close>

theorem gaze_relY_zero_counterexample:
  "length (keypointsF (gazeFace (1 / 2) 0)) = 478 \<and>
   gazeRel (gazeFace (1 / 2) 0) = Inr (Fin (1 / 2), Fin 0) \<and>
   detectGazeDirection (gazeFace (1 / 2) 0) = Inr ''CENTER'' \<and>
   detectGazeDirection (gazeFace (1 / 2) 0) \<noteq> Inr ''UP''"
  by (simp add: detectGazeDirection_def gazeOf_def jsgt_def)

text \<open>
  Claim C3, amended. For every face whose computed \<open>relX\<close> is exactly 0.5 and whose
  computed \<open>relY\<close> lies in the open interval \<open>(0, 0.3)\<close>, \<open>detectGazeDirection\<close> returns
  UP, not CENTER; at \<open>relY = 0\<close> it returns CENTER.
\<close>

theorem gaze_up_open_interval:
  "gazeRel fc = Inr (Fin (1 / 2), Fin ry) \<Longrightarrow>
     (0 < ry \<and> ry < 3 / 10 \<longrightarrow> detectGazeDirection fc = Inr ''UP'') \<and>
     (ry = 0 \<longrightarrow> detectGazeDirection fc = Inr ''CENTER'')"
  by (simp add: detectGazeDirection_def gazeOf_def jsgt_def)

theorem gaze_up_open_interval_witness:
  "gazeRel (gazeFace (1 / 2) (1 / 10)) = Inr (Fin (1 / 2), Fin (1 / 10)) \<and>
   (0::real) < 1 / 10 \<and> (1 / 10 :: real) < 3 / 10 \<and>
   detectGazeDirection (gazeFace (1 / 2) (1 / 10)) = Inr ''UP'' \<and>
   gazeRel (gazeFace (1 / 2) 0) = Inr (Fin (1 / 2), Fin 0) \<and>
   detectGazeDirection (gazeFace (1 / 2) 0) = Inr ''CENTER''"
  using gaze_up_open_interval [of "gazeFace (1 / 2) (1 / 10)" "1 / 10"]
        gaze_up_open_interval [of "gazeFace (1 / 2) 0" 0]
  by simp

text \<open>
  Claim C4. For two present hands of 21 landmarks each, \<open>checkOpenPalm\<close> returns
  \<open>Open Palm\<close> exactly when both hands satisfy \<open>isHandOpen\<close>, that is at least 3 of
  the 4 tested fingers of each are straight, and the wrist-to-middle-fingertip segments
  are parallel within 20 degrees; otherwise it returns null, in particular when a hand has
  fewer than 3 straight fingers and the segments are parallel.
\<close>

theorem checkOpenPalm_rule:
  "length L = 21 \<and> length R = 21 \<Longrightarrow>
     checkOpenPalm (Some L) (Some R) =
       Inr (if 3 \<le> straightFingers L \<and> 3 \<le> straightFingers R \<and>
               areLinesParallel2D (L ! 0) (L ! 12) (R ! 0) (R ! 12) 20
            then Some ''Open Palm'' else None) \<and>
     isHandOpen (Some L) = Inr (3 \<le> straightFingers L) \<and>
     isHandOpen (Some R) = Inr (3 \<le> straightFingers R)"
  by (simp add: checkOpenPalm_defined palmsOpen_def isHandOpen_count)

theorem checkOpenPalm_rule_witness:
  "length (lineHand 0) = 21 \<and> length (lineHand 100) = 21 \<and> length (bentHand 0) = 21 \<and>
   checkOpenPalm (Some (lineHand 0)) (Some (lineHand 100)) = Inr (Some ''Open Palm'') \<and>
   straightFingers (bentHand 0) < 3 \<and>
   areLinesParallel2D (bentHand 0 ! 0) (bentHand 0 ! 12) (lineHand 100 ! 0) (lineHand 100 ! 12) 20 \<and>
   checkOpenPalm (Some (bentHand 0)) (Some (lineHand 100)) = Inr None"
  using checkOpenPalm_rule [of "lineHand 0" "lineHand 100"]
        checkOpenPalm_rule [of "bentHand 0" "lineHand 100"]
  by simp

text \<open>
  Claim C5. For two present hands of 21 landmarks each, \<open>checkFingerInterlocked\<close>
  returns \<open>Finger Interlocked\<close> exactly when at least 3 of the joint pairs at indices
  3, 6, 10, 14, 18 are closer than 40 pixels. In \<open>detectGesture\<close> the rule comes before
  Open Palm: when phase 1 applies and at least 3 pairs are close, the result is
  \<open>Finger Interlocked\<close>, whether or not the Open Palm conditions hold too.
\<close>

theorem fingerInterlocked_rule_and_priority:
  "(length L = 21 \<and> length R = 21 \<longrightarrow>
      checkFingerInterlocked (Some L) (Some R) =
        Inr (if 3 \<le> length (filter (\<lambda>i. distance2D (L ! i) (R ! i) < 40) [3, 6, 10, 14, 18])
             then Some ''Finger Interlocked'' else None)) \<and>
   (twoHands hs = Some (L', R') \<and> length L' = 21 \<and> length R' = 21 \<and>
    3 \<le> length (filter (\<lambda>i. distance2D (L' ! i) (R' ! i) < 40) [3, 6, 10, 14, 18]) \<longrightarrow>
      detectGesture (Some hs) = Inr (Some ''Finger Interlocked''))"
proof -
  have a: "length L = 21 \<and> length R = 21 \<longrightarrow>
      checkFingerInterlocked (Some L) (Some R) =
        Inr (if 3 \<le> length (filter (\<lambda>i. distance2D (L ! i) (R ! i) < 40) [3, 6, 10, 14, 18])
             then Some ''Finger Interlocked'' else None)"
    using checkFingerInterlocked_count [of L R] by (simp add: closeJoints_def)
  have b: "detectGesture (Some hs) = Inr (Some ''Finger Interlocked'')"
    if t: "twoHands hs = Some (L', R')" and l: "length L' = 21" "length R' = 21"
      and c: "3 \<le> closeJoints L' R'"
  proof -
    from t have ne: "hs \<noteq> []" by (auto simp: twoHands_def)
    have "twoHandRules hs = Inr (Some ''Finger Interlocked'')"
      using c l by (simp add: twoHandRules_Some [OF t] checkFingerInterlocked_count)
    then show ?thesis using ne by (simp add: detectGesture_def)
  qed
  from a b show ?thesis unfolding closeJoints_def by blast
qed

theorem fingerInterlocked_rule_and_priority_witness:
  "length (lineHand 0) = 21 \<and> length (lineHand 10) = 21 \<and>
   checkFingerInterlocked (Some (lineHand 0)) (Some (lineHand 10)) =
     Inr (Some ''Finger Interlocked'') \<and>
   twoHands [mkHand ''Left'' (lineHand 0), mkHand ''Right'' (lineHand 10)] =
     Some (lineHand 0, lineHand 10) \<and>
   3 \<le> length (filter (\<lambda>i. distance2D (lineHand 0 ! i) (lineHand 10 ! i) < 40) [3, 6, 10, 14, 18]) \<and>
   checkOpenPalm (Some (lineHand 0)) (Some (lineHand 10)) = Inr (Some ''Open Palm'') \<and>
   detectGesture (Some [mkHand ''Left'' (lineHand 0), mkHand ''Right'' (lineHand 10)]) =
     Inr (Some ''Finger Interlocked'')"
proof -
  have t: "twoHands [mkHand ''Left'' (lineHand 0), mkHand ''Right'' (lineHand 10)] =
             Some (lineHand 0, lineHand 10)"
    by (simp add: twoHands_def mkHand_def)
  have c: "3 \<le> length (filter (\<lambda>i. distance2D (lineHand 0 ! i) (lineHand 10 ! i) < 40)
             [3, 6, 10, 14, 18])"
    using closeJoints_lineHand(1) by (simp add: closeJoints_def)
  have p: "checkOpenPalm (Some (lineHand 0)) (Some (lineHand 10)) = Inr (Some ''Open Palm'')"
    by (simp add: checkOpenPalm_defined palmsOpen_def)
  show ?thesis
    using t c p
      fingerInterlocked_rule_and_priority
        [of "lineHand 0" "lineHand 10"
            "[mkHand ''Left'' (lineHand 0), mkHand ''Right'' (lineHand 10)]"
            "lineHand 0" "lineHand 10"]
    by simp
qed

text \<open>
  Claim C6. For every hand of 21 landmarks, \<open>checkMiddleFinger\<close> returns
  \<open>Middle Finger\<close> when the middle fingertip is above its PIP joint (smaller y) and the
  index, ring and pinky fingertips are below theirs (greater y), and null when one of the
  four inequalities fails; the thumb landmarks (1 to 4) have no influence on the result.
\<close>

theorem checkMiddleFinger_rule:
  "length landmarks = 21 \<Longrightarrow>
     checkMiddleFinger landmarks =
       Inr (if y (landmarks ! 12) < y (landmarks ! 10) \<and>
               y (landmarks ! 8) > y (landmarks ! 6) \<and>
               y (landmarks ! 16) > y (landmarks ! 14) \<and>
               y (landmarks ! 20) > y (landmarks ! 18)
            then Some ''Middle Finger'' else None) \<and>
     (\<forall>i \<in> {1, 2, 3, 4}. \<forall>p. checkMiddleFinger (landmarks[i := p]) = checkMiddleFinger landmarks)"
  by (simp add: checkMiddleFinger_def Let_def)

theorem checkMiddleFinger_rule_witness:
  "length middleHand = 21 \<and>
   checkMiddleFinger middleHand = Inr (Some ''Middle Finger'') \<and>
   (4::nat) \<in> {1, 2, 3, 4} \<and>
   checkMiddleFinger (middleHand[4 := \<lparr>x = 500, y = - 500\<rparr>]) = Inr (Some ''Middle Finger'') \<and>
   length (lineHand 0) = 21 \<and>
   checkMiddleFinger (lineHand 0) = Inr None"
  using checkMiddleFinger_rule [of middleHand] checkMiddleFinger_rule [of "lineHand 0"]
  by simp

text \<open>
  Claim C7. When one of the two vectors from \<open>p1\<close> has zero length (\<open>p2\<close> or \<open>p3\<close>
  has the coordinates of \<open>p1\<close>), the 3D and the 2D colinearity predicates answer false
  at every tolerance; when one of the two segments given to the 2D parallelism predicate
  has zero length, it answers false at every tolerance. The predicates are total on
  points: they return a truth value and raise no fault.
\<close>

theorem degenerate_vectors_give_false:
  "((x pb = x pa \<and> y pb = y pa \<and> z pb = z pa) \<or> (x pc = x pa \<and> y pc = y pa \<and> z pc = z pa)
     \<longrightarrow> arePointsColinear pa pb pc t = False) \<and>
   ((x qb = x qa \<and> y qb = y qa) \<or> (x qc = x qa \<and> y qc = y qa)
     \<longrightarrow> arePointsColinear2D qa qb qc t = False) \<and>
   ((x sb = x sa \<and> y sb = y sa) \<or> (x tb = x ta \<and> y tb = y ta)
     \<longrightarrow> areLinesParallel2D sa sb ta tb t = False)"
  by (auto simp: arePointsColinear_def arePointsColinear2D_def areLinesParallel2D_def Let_def)

theorem degenerate_vectors_give_false_witness:
  "arePointsColinear \<lparr>x = 1, y = 2, z = 3\<rparr> \<lparr>x = 1, y = 2, z = 3\<rparr> \<lparr>x = 1, y = 2, z = 3\<rparr> 20
     = False \<and>
   arePointsColinear2D \<lparr>x = 1, y = 2\<rparr> \<lparr>x = 1, y = 2\<rparr> \<lparr>x = 1, y = 2\<rparr> 20 = False \<and>
   areLinesParallel2D \<lparr>x = 1, y = 2\<rparr> \<lparr>x = 1, y = 2\<rparr> \<lparr>x = 0, y = 0\<rparr> \<lparr>x = 5, y = 5\<rparr> 20 = False \<and>
   areLinesParallel2D \<lparr>x = 0, y = 0\<rparr> \<lparr>x = 5, y = 5\<rparr> \<lparr>x = 1, y = 2\<rparr> \<lparr>x = 1, y = 2\<rparr> 20 = False"
  using degenerate_vectors_give_false
          [where pa = "\<lparr>x = 1, y = 2, z = 3\<rparr>" and pb = "\<lparr>x = 1, y = 2, z = 3\<rparr>"
             and pc = "\<lparr>x = 1, y = 2, z = 3\<rparr>" and t = 20
             and qa = "\<lparr>x = 1, y = 2\<rparr>" and qb = "\<lparr>x = 1, y = 2\<rparr>" and qc = "\<lparr>x = 1, y = 2\<rparr>"
             and sa = "\<lparr>x = 1, y = 2\<rparr>" and sb = "\<lparr>x = 1, y = 2\<rparr>"
             and ta = "\<lparr>x = 0, y = 0\<rparr>" and tb = "\<lparr>x = 5, y = 5\<rparr>"]
        degenerate_vectors_give_false
          [where pa = "\<lparr>x = 1, y = 2, z = 3\<rparr>" and pb = "\<lparr>x = 1, y = 2, z = 3\<rparr>"
             and pc = "\<lparr>x = 1, y = 2, z = 3\<rparr>" and t = 20
             and qa = "\<lparr>x = 1, y = 2\<rparr>" and qb = "\<lparr>x = 1, y = 2\<rparr>" and qc = "\<lparr>x = 1, y = 2\<rparr>"
             and sa = "\<lparr>x = 0, y = 0\<rparr>" and sb = "\<lparr>x = 5, y = 5\<rparr>"
             and ta = "\<lparr>x = 1, y = 2\<rparr>" and tb = "\<lparr>x = 1, y = 2\<rparr>"]
  by simp

text \<open>
  Claim C8. An absent hand gives no match and no fault: \<open>isHandOpen\<close> of an absent hand
  is false, and \<open>checkOpenPalm\<close> and \<open>checkFingerInterlocked\<close> return null whenever
  one of their two hands is absent, whatever the other argument is.
\<close>

theorem absent_hand_no_match:
  "isHandOpen None = Inr False \<and>
   checkOpenPalm None r = Inr None \<and> checkOpenPalm l None = Inr None \<and>
   checkFingerInterlocked None r = Inr None \<and> checkFingerInterlocked l None = Inr None"
  by (simp add: isHandOpen_def checkOpenPalm_def checkFingerInterlocked_def split: option.splits)

text \<open>
  Claim C9. \<open>arePointsColinear\<close> is monotone in its tolerance: for fixed points, a
  positive answer at a tolerance \<open>t'\<close> stays positive at every tolerance \<open>t \<ge> t'\<close>.
\<close>

theorem colinear_tolerance_mono:
  "t' \<le> t \<Longrightarrow> arePointsColinear p1 p2 p3 t' \<Longrightarrow> arePointsColinear p1 p2 p3 t"
  by (auto simp: arePointsColinear_def Let_def split: if_splits)

theorem colinear_tolerance_mono_witness:
  "(1 / 100 :: real) \<le> 8 / 100 \<and>
   arePointsColinear \<lparr>x = 0, y = 0, z = 0\<rparr> \<lparr>x = 1, y = 0, z = 0\<rparr> \<lparr>x = 2, y = 0, z = 0\<rparr> (1 / 100) \<and>
   arePointsColinear \<lparr>x = 0, y = 0, z = 0\<rparr> \<lparr>x = 1, y = 0, z = 0\<rparr> \<lparr>x = 2, y = 0, z = 0\<rparr> (8 / 100)"
proof -
  have a: "arePointsColinear \<lparr>x = 0, y = 0, z = 0\<rparr> \<lparr>x = 1, y = 0, z = 0\<rparr> \<lparr>x = 2, y = 0, z = 0\<rparr>
             (1 / 100)"
    by (simp add: arePointsColinear_def Let_def)
  show ?thesis using a colinear_tolerance_mono [OF _ a, of "8 / 100"] by simp
qed

text \<open>
  Claim C10. The comparison with the threshold in \<open>checkFingerInterlocked\<close> is strict:
  when each of the five compared joint pairs is at distance 40 or more (exactly 40
  included), no pair counts and the function returns null.
\<close>

theorem interlocked_threshold_strict:
  "length L = 21 \<and> length R = 21 \<and>
   (\<forall>i \<in> set [3, 6, 10, 14, 18]. 40 \<le> distance2D (L ! i) (R ! i)) \<Longrightarrow>
     checkFingerInterlocked (Some L) (Some R) = Inr None"
  by (simp add: checkFingerInterlocked_count closeJoints_def)

theorem interlocked_threshold_strict_witness:
  "length (lineHand 0) = 21 \<and> length (lineHand 40) = 21 \<and>
   distance2D (lineHand 0 ! 3) (lineHand 40 ! 3) = 40 \<and>
   distance2D (lineHand 0 ! 6) (lineHand 40 ! 6) = 40 \<and>
   distance2D (lineHand 0 ! 10) (lineHand 40 ! 10) = 40 \<and>
   distance2D (lineHand 0 ! 14) (lineHand 40 ! 14) = 40 \<and>
   distance2D (lineHand 0 ! 18) (lineHand 40 ! 18) = 40 \<and>
   checkFingerInterlocked (Some (lineHand 0)) (Some (lineHand 40)) = Inr None"
proof -
  have d: "\<forall>i \<in> set [3, 6, 10, 14, 18]. distance2D (lineHand 0 ! i) (lineHand 40 ! i) = 40"
    by (simp add: distance2D_eq_iff)
  then have h: "\<forall>i \<in> set [3, 6, 10, 14, 18]. 40 \<le> distance2D (lineHand 0 ! i) (lineHand 40 ! i)"
    by simp
  show ?thesis
    using d h interlocked_threshold_strict [of "lineHand 0" "lineHand 40"] by simp
qed

end
